theory Spec2Isabelle
  imports Main
begin

section \<open>The Narrator: conversation store and turn controller\<close>

text \<open>
  The development follows the stateless variant of the application (the one that keeps
  \<open>currentHistory\<close> itself and replays it on every backend call); \<open>getChatData\<close> and
  \<open>saveChatData\<close> are the same functions in the variant that keeps a chat session.
  JavaScript values that pass through \<open>JSON.parse\<close> are untyped at run time, so the store
  is modelled on JSON values; the controller's variables carry their declared TypeScript
  types.
\<close>

subsection \<open>JSON values and the platform's JSON codec\<close>

datatype json =
    JNull
  | JBool bool
  | JNum int
  | JStr string
  | JArr "json list"
  | JObj "(string \<times> json) list"

text \<open>
  Numbers are carried as integers: the code never computes with a parsed number, it only
  tests values for truthiness, where a number is falsy exactly when it is zero.
\<close>

fun js_truthy :: "json \<Rightarrow> bool" where
  "js_truthy JNull = False"
| "js_truthy (JBool b) = b"
| "js_truthy (JNum n) = (n \<noteq> 0)"
| "js_truthy (JStr s) = (s \<noteq> [])"
| "js_truthy (JArr xs) = True"
| "js_truthy (JObj kvs) = True"

text \<open>
  \<open>a || b\<close> where \<open>a\<close> is a property read: \<open>None\<close> is \<open>undefined\<close>, which is falsy.
\<close>

definition js_or :: "json option \<Rightarrow> json \<Rightarrow> json" where
  "js_or a b = (case a of None \<Rightarrow> b | Some v \<Rightarrow> if js_truthy v then v else b)"

datatype exn = SyntaxError | TypeError

text \<open>
  Reading one of the properties \<open>history\<close>, \<open>systemInstruction\<close>, \<open>story_part\<close>,
  \<open>suggestions\<close>: \<open>null\<close> has no properties and the read throws; an object yields the
  property or \<open>undefined\<close>; every other value yields \<open>undefined\<close> (none of the four names
  is inherited from a prototype).
\<close>

fun get_prop :: "json \<Rightarrow> string \<Rightarrow> exn + json option" where
  "get_prop JNull k = Inl TypeError"
| "get_prop (JObj kvs) k = Inr (map_of kvs k)"
| "get_prop v k = Inr None"

fun Array_isArray :: "json \<Rightarrow> bool" where
  "Array_isArray (JArr xs) = True"
| "Array_isArray v = False"

text \<open>
  A string that may be handed to \<open>JSON.parse\<close> is carried together with what the parser
  makes of it: \<open>denotes\<close> is the parsed value, or \<open>None\<close> when the parser throws. The empty
  string is never JSON.
\<close>

record payload =
  chars :: string
  denotes :: "json option"

definition JSON_parse :: "payload \<Rightarrow> exn + json" where
  "JSON_parse s =
     (case denotes s of
        None \<Rightarrow> Inl SyntaxError
      | Some v \<Rightarrow> if chars s = [] then Inl SyntaxError else Inr v)"

text \<open>Decimal digits of a number, as template literals and the serialiser print them.\<close>

definition digit :: "nat \<Rightarrow> char" where
  "digit d = char_of (48 + d)"

fun decimal :: "nat \<Rightarrow> string" where
  "decimal n = (if n < 10 then [digit n] else decimal (n div 10) @ [digit (n mod 10)])"

declare decimal.simps [simp del]

definition quoted :: "string \<Rightarrow> string" where
  "quoted s =
     CHR 0x22 # concat (map (\<lambda>c. if c = CHR 0x22 \<or> c = CHR 0x5C then [CHR 0x5C, c] else [c]) s)
       @ [CHR 0x22]"

fun commas :: "string list \<Rightarrow> string" where
  "commas [] = []"
| "commas [x] = x"
| "commas (x # y # ys) = x @ '','' @ commas (y # ys)"

fun show_json :: "json \<Rightarrow> string" where
  "show_json JNull = ''null''"
| "show_json (JBool b) = (if b then ''true'' else ''false'')"
| "show_json (JNum n) = (if n < 0 then ''-'' @ decimal (nat (- n)) else decimal (nat n))"
| "show_json (JStr s) = quoted s"
| "show_json (JArr xs) = ''['' @ commas (map show_json xs) @ '']''"
| "show_json (JObj kvs) =
     ''{'' @ commas (map (\<lambda>kv. quoted (fst kv) @ '':'' @ show_json (snd kv)) kvs) @ ''}''"

text \<open>
  \<open>JSON.stringify\<close>: the text written is one that parses back to the value. Of the
  characters written, the code only ever tests whether there are any; \<open>show_json\<close> writes
  them without white space and escapes the quote and the backslash.
\<close>

definition JSON_stringify :: "json \<Rightarrow> payload" where
  "JSON_stringify v = \<lparr>chars = show_json v, denotes = Some v\<rparr>"

subsection \<open>Turns\<close>

record Part =
  text' :: string

record Content =
  role :: string
  parts :: "Part list"

definition Part_json :: "Part \<Rightarrow> json" where
  "Part_json p = JObj [(''text'', JStr (text' p))]"

definition Content_json :: "Content \<Rightarrow> json" where
  "Content_json c = JObj [(''role'', JStr (role c)), (''parts'', JArr (map Part_json (parts c)))]"

definition Contents_json :: "Content list \<Rightarrow> json" where
  "Contents_json cs = JArr (map Content_json cs)"

text \<open>
  The casts of parsed values to the declared types are unchecked in the source. They are
  written out here: a value that does not have the shape the code itself writes is outside
  the typed part of the model (\<open>None\<close>).
\<close>

fun as_string :: "json \<Rightarrow> string option" where
  "as_string (JStr s) = Some s"
| "as_string v = None"

fun as_list :: "(json \<Rightarrow> 'a option) \<Rightarrow> json list \<Rightarrow> 'a list option" where
  "as_list f [] = Some []"
| "as_list f (v # vs) =
     (case f v of None \<Rightarrow> None
      | Some x \<Rightarrow> (case as_list f vs of None \<Rightarrow> None | Some xs \<Rightarrow> Some (x # xs)))"

fun as_Part :: "json \<Rightarrow> Part option" where
  "as_Part (JObj [(k, JStr s)]) = (if k = ''text'' then Some \<lparr>text' = s\<rparr> else None)"
| "as_Part v = None"

fun as_Content :: "json \<Rightarrow> Content option" where
  "as_Content (JObj [(k1, JStr r), (k2, JArr ps)]) =
     (if k1 = ''role'' \<and> k2 = ''parts''
      then map_option (\<lambda>ps'. \<lparr>role = r, parts = ps'\<rparr>) (as_list as_Part ps)
      else None)"
| "as_Content v = None"

fun as_Contents :: "json \<Rightarrow> Content list option" where
  "as_Contents (JArr vs) = as_list as_Content vs"
| "as_Contents v = None"

subsection \<open>ChatDataStore\<close>

definition DEFAULT_SYSTEM_INSTRUCTION :: string where
  "DEFAULT_SYSTEM_INSTRUCTION =
     ''You are a master storyteller. Your goal is to weave imaginative and engaging tales for the user. When the user gives you a prompt, turn it into a captivating story.''"

text \<open>
  The three families of keys (\<open>gemini-story-saved-chats\<close>, \<open>gemini-story-current-chat\<close> and
  \<open>gemini-story-history-\<close> followed by a title) never collide, so \<open>localStorage\<close> (a
  \<open>Storage\<close> object) is a record of three regions, the third keyed by the title.
\<close>

record Storage =
  SAVED_CHATS :: "payload option"
  CURRENT_CHAT :: "string option"
  HISTORY :: "string \<rightharpoonup> payload"

text \<open>What \<open>getChatData\<close> returns at run time: two parsed values, whatever their shape.\<close>

record ChatData =
  history :: json
  systemInstruction :: json

definition empty_ChatData :: ChatData where
  "empty_ChatData = \<lparr>history = JArr [], systemInstruction = JStr DEFAULT_SYSTEM_INSTRUCTION\<rparr>"

text \<open>The body of the \<open>try\<close> block of \<open>getChatData\<close>.\<close>

definition getChatData_try :: "payload \<Rightarrow> exn + ChatData" where
  "getChatData_try rawData =
     (case JSON_parse rawData of
        Inl e \<Rightarrow> Inl e
      | Inr parsedData \<Rightarrow>
          if Array_isArray parsedData
          then Inr \<lparr>history = parsedData, systemInstruction = JStr DEFAULT_SYSTEM_INSTRUCTION\<rparr>
          else (case get_prop parsedData ''history'' of
                  Inl e \<Rightarrow> Inl e
                | Inr h \<Rightarrow>
                   (case get_prop parsedData ''systemInstruction'' of
                      Inl e \<Rightarrow> Inl e
                    | Inr si \<Rightarrow>
                        Inr \<lparr>history = js_or h (JArr []),
                             systemInstruction = js_or si (JStr DEFAULT_SYSTEM_INSTRUCTION)\<rparr>)))"

text \<open>
  \<open>getChatData\<close>: \<open>!rawData\<close> holds for a missing item and for the empty string; the
  \<open>catch\<close> clause turns every exception of the body into the default.
\<close>

definition getChatData :: "Storage \<Rightarrow> string \<Rightarrow> exn + ChatData" where
  "getChatData ls title =
     (case HISTORY ls title of
        None \<Rightarrow> Inr empty_ChatData
      | Some rawData \<Rightarrow>
          if chars rawData = [] then Inr empty_ChatData
          else (case getChatData_try rawData of
                  Inl error \<Rightarrow> Inr empty_ChatData
                | Inr data \<Rightarrow> Inr data))"

definition saveChatData :: "string \<Rightarrow> Content list \<Rightarrow> string \<Rightarrow> Storage \<Rightarrow> Storage" where
  "saveChatData title history' systemInstruction' ls =
     ls\<lparr>HISTORY := (HISTORY ls)(title \<mapsto>
          JSON_stringify (JObj [(''history'', Contents_json history'),
                                (''systemInstruction'', JStr systemInstruction')]))\<rparr>"

subsection \<open>The page: transcript, timers and the controller's variables\<close>

text \<open>
  The children of \<open>chatContainer\<close>. A message node keeps the \<open>sender\<close> it was made for
  (\<open>''loading''\<close> is the pending indicator) and its content; the copy and regenerate
  buttons and the save-status label are left out. Nodes carry an identity, since the
  pending indicator is removed through the reference kept by the call that made it.
\<close>

datatype element =
    Message string string
  | QuickReplies "string list"

record state =
  localStorage :: Storage
  chatContainer :: "(nat \<times> element) list"
  nextNode :: nat
  currentHistory :: "Content list"
  currentChatTitle :: "string option"
  currentSystemInstruction :: string
  saveTimeoutId :: "nat option"
  timers :: "nat list"
  nextTimer :: nat

text \<open>\<open>!currentChatTitle\<close>: \<open>null\<close> and the empty string are falsy.\<close>

definition no_title :: "string option \<Rightarrow> bool" where
  "no_title t = (case t of None \<Rightarrow> True | Some s \<Rightarrow> s = [])"

fun remove_first :: "('a \<Rightarrow> bool) \<Rightarrow> 'a list \<Rightarrow> 'a list" where
  "remove_first P [] = []"
| "remove_first P (x # xs) = (if P x then xs else x # remove_first P xs)"

definition remove_last :: "('a \<Rightarrow> bool) \<Rightarrow> 'a list \<Rightarrow> 'a list" where
  "remove_last P xs = rev (remove_first P (rev xs))"

fun is_quick_replies :: "nat \<times> element \<Rightarrow> bool" where
  "is_quick_replies (i, QuickReplies ss) = True"
| "is_quick_replies (i, Message sender content) = False"

fun is_user_message_container :: "nat \<times> element \<Rightarrow> bool" where
  "is_user_message_container (i, Message sender content) = (sender = ''user'')"
| "is_user_message_container (i, QuickReplies ss) = False"

fun is_model_message_container :: "nat \<times> element \<Rightarrow> bool" where
  "is_model_message_container (i, Message sender content) = (sender \<noteq> ''user'')"
| "is_model_message_container (i, QuickReplies ss) = False"

text \<open>\<open>node.remove()\<close> for the node with identity \<open>i\<close>; nothing happens when it is gone.\<close>

definition remove_node :: "nat \<Rightarrow> state \<Rightarrow> state" where
  "remove_node i st = st\<lparr>chatContainer := filter (\<lambda>n. fst n \<noteq> i) (chatContainer st)\<rparr>"

text \<open>\<open>document.querySelector('.quick-replies')?.remove()\<close>\<close>

definition remove_quick_replies :: "state \<Rightarrow> state" where
  "remove_quick_replies st =
     st\<lparr>chatContainer := remove_first is_quick_replies (chatContainer st)\<rparr>"

definition appendChild :: "element \<Rightarrow> state \<Rightarrow> state" where
  "appendChild e st =
     st\<lparr>chatContainer := chatContainer st @ [(nextNode st, e)], nextNode := Suc (nextNode st)\<rparr>"

text \<open>\<open>appendMessage\<close> returns the identity of the message node it made.\<close>

definition appendMessage :: "string \<Rightarrow> string \<Rightarrow> string list \<Rightarrow> state \<Rightarrow> nat \<times> state" where
  "appendMessage content sender suggestions st =
     (let st1 = remove_quick_replies st;
          messageDiv = nextNode st1;
          st2 = appendChild (Message sender content) st1;
          st3 = (if sender = ''model'' \<and> suggestions \<noteq> []
                 then appendChild (QuickReplies suggestions) st2 else st2)
      in (messageDiv, st3))"

subsection \<open>SaveScheduler\<close>

text \<open>
  \<open>timers\<close> holds the identities of the save timers that are set and have not run.
  \<open>clearTimeout\<close> of \<open>undefined\<close>, or of a timer that has run, does nothing. The timers
  that only change the save-status label after a write are left out with the label.
\<close>

definition clearTimeout :: "nat option \<Rightarrow> state \<Rightarrow> state" where
  "clearTimeout t st =
     (case t of None \<Rightarrow> st | Some i \<Rightarrow> st\<lparr>timers := filter (\<lambda>j. j \<noteq> i) (timers st)\<rparr>)"

definition scheduleSave :: "state \<Rightarrow> state" where
  "scheduleSave st =
     (let st1 = clearTimeout (saveTimeoutId st) st
      in st1\<lparr>saveTimeoutId := Some (nextTimer st1),
              timers := timers st1 @ [nextTimer st1],
              nextTimer := Suc (nextTimer st1)\<rparr>)"

text \<open>The callback given to \<open>setTimeout\<close> in \<open>scheduleSave\<close>.\<close>

definition save_callback :: "state \<Rightarrow> state" where
  "save_callback st =
     (case currentChatTitle st of
        None \<Rightarrow> st
      | Some title \<Rightarrow>
          if title = [] then st
          else st\<lparr>localStorage :=
                 saveChatData title (currentHistory st) (currentSystemInstruction st)
                   (localStorage st)\<rparr>)"

text \<open>
  The quiet period of timer \<open>i\<close> ends: its callback runs if the timer is still set, and a
  cleared timer never runs.
\<close>

definition timeout :: "nat \<Rightarrow> state \<Rightarrow> state" where
  "timeout i st =
     (if i \<in> set (timers st)
      then save_callback (st\<lparr>timers := filter (\<lambda>j. j \<noteq> i) (timers st)\<rparr>)
      else st)"

text \<open>
  \<open>requestSaves fs\<close> is a run of calls of \<open>scheduleSave\<close> during which no save timer
  expires: before each call the page runs one of the \<open>fs\<close> (the code between two calls).
\<close>

fun requestSaves :: "(state \<Rightarrow> state) list \<Rightarrow> state \<Rightarrow> state" where
  "requestSaves [] st = st"
| "requestSaves (f # fs) st = requestSaves fs (scheduleSave (f st))"

text \<open>Code that leaves the save timers and \<open>saveTimeoutId\<close> as they are.\<close>

definition keeps_save_timers :: "(state \<Rightarrow> state) \<Rightarrow> bool" where
  "keeps_save_timers f =
     (\<forall>st. timers (f st) = timers st \<and> saveTimeoutId (f st) = saveTimeoutId st)"

text \<open>Every save timer that is set is the one \<open>saveTimeoutId\<close> names.\<close>

definition pending_ok :: "state \<Rightarrow> bool" where
  "pending_ok st = (\<forall>i \<in> set (timers st). saveTimeoutId st = Some i)"

subsection \<open>Error classification\<close>

text \<open>
  What a \<open>catch\<close> clause of \<open>sendMessage\<close> may receive: an instance of \<open>Error\<close> with its
  message, or any other thrown value.
\<close>

datatype thrown = Error string | NonError

text \<open>
  \<open>toLowerCase\<close> on the letters \<open>A\<close> to \<open>Z\<close>; \<open>s.includes(sub)\<close> is the test for a
  contiguous occurrence.
\<close>

definition lower :: "char \<Rightarrow> char" where
  "lower c = (let n = (of_char c :: nat) in if 65 \<le> n \<and> n \<le> 90 then char_of (n + 32) else c)"

definition toLowerCase :: "string \<Rightarrow> string" where
  "toLowerCase s = map lower s"

fun includes' :: "string \<Rightarrow> string \<Rightarrow> bool" where
  "includes' [] sub = (sub = [])"
| "includes' (c # cs) sub = (take (length sub) (c # cs) = sub \<or> includes' cs sub)"

definition userFriendlyMessage :: "thrown \<Rightarrow> string" where
  "userFriendlyMessage error =
     (case error of
        NonError \<Rightarrow> ''An unexpected error occurred. Please try again later.''
      | Error message \<Rightarrow>
          (let lowerCaseMessage = toLowerCase message in
           if includes' lowerCaseMessage ''api key not valid''
           then ''Your API key is invalid. Please check your configuration.''
           else if includes' lowerCaseMessage ''quota''
           then ''You have exceeded your API quota. Please check your usage and billing.''
           else if includes' lowerCaseMessage ''network error''
                   \<or> includes' lowerCaseMessage ''failed to fetch''
           then ''A network error occurred. Please check your internet connection and try again.''
           else if includes' lowerCaseMessage ''400''
           then ''The request was malformed. This could be due to a safety policy violation. Please try rephrasing your prompt.''
           else if includes' lowerCaseMessage ''500'' \<or> includes' lowerCaseMessage ''503''
           then ''The service is temporarily unavailable. Please try again in a few moments.''
           else ''Could not get a response. '' @ message))"

definition handleApiError :: "thrown \<Rightarrow> nat \<Rightarrow> state \<Rightarrow> state" where
  "handleApiError error loadingIndicator st =
     snd (appendMessage (''<strong>Error:</strong> '' @ userFriendlyMessage error) ''model'' []
            (remove_node loadingIndicator st))"

subsection \<open>TurnController\<close>

text \<open>
  \<open>sendMessage\<close> is an asynchronous function with one \<open>await\<close>, on the backend call. It is
  modelled in two steps: \<open>sendMessage\<close> runs up to the \<open>await\<close> and yields the call that
  is now in flight (\<open>None\<close> when the function returned at once), \<open>sendMessage_resume\<close> runs
  from the \<open>await\<close> to the end, on the state the page has when the backend settles.
  Other event handlers may run between the two.
\<close>

record call =
  loadingIndicator :: nat
  contents :: "Content list"
  config_systemInstruction :: string

record GenerateContentResponse =
  response_text :: "payload option"

definition user_turn :: "string \<Rightarrow> Content" where
  "user_turn userMessage = \<lparr>role = ''user'', parts = [\<lparr>text' = userMessage\<rparr>]\<rparr>"

definition model_turn :: "string \<Rightarrow> Content" where
  "model_turn storyPart = \<lparr>role = ''model'', parts = [\<lparr>text' = storyPart\<rparr>]\<rparr>"

text \<open>\<open>currentHistory.push(turn)\<close>\<close>

definition push :: "Content \<Rightarrow> state \<Rightarrow> state" where
  "push turn st = st\<lparr>currentHistory := currentHistory st @ [turn]\<rparr>"

definition IMPORTANT :: string where
  "IMPORTANT = [CHR 0x0A, CHR 0x0A] @ ''IMPORTANT: Your entire response must be a single JSON object matching the defined schema. Do not include any other text, markdown, or formatting. The '' @ [CHR 0x27] @ ''story_part'' @ [CHR 0x27] @ '' should be the creative story content, and '' @ [CHR 0x27] @ ''suggestions'' @ [CHR 0x27] @ '' must be an array of three distinct strings.''"

definition sendMessage :: "string \<Rightarrow> state \<Rightarrow> call option \<times> state" where
  "sendMessage userMessage st =
     (if no_title (currentChatTitle st) then (None, st)
      else
        let st1 = remove_quick_replies st;
            st2 = snd (appendMessage userMessage ''user'' [] st1);
            (indicator, st3) = appendMessage [] ''loading'' [] st2;
            st4 = push (user_turn userMessage) st3;
            st5 = scheduleSave st4
        in (Some \<lparr>loadingIndicator = indicator,
                  contents = currentHistory st5,
                  config_systemInstruction = currentSystemInstruction st5 @ IMPORTANT\<rparr>,
            st5))"

definition not_in_format :: string where
  "not_in_format = ''Error: The model'' @ [CHR 0x27] @ ''s response was not in the correct format. Here is the raw response: ''"

definition missing_story_part :: string where
  "missing_story_part = ''API response is missing '' @ [CHR 0x27] @ ''story_part'' @ [CHR 0x27] @ ''.''"

text \<open>
  The body of the inner \<open>try\<close> block: the values assigned to \<open>storyPart\<close> and
  \<open>suggestions\<close>. \<open>JSON.parse(undefined)\<close> throws \<open>SyntaxError\<close>.
\<close>

definition parse_response :: "GenerateContentResponse \<Rightarrow> exn + json \<times> json" where
  "parse_response response =
     (case response_text response of
        None \<Rightarrow> Inl SyntaxError
      | Some t \<Rightarrow>
         (case JSON_parse t of
            Inl e \<Rightarrow> Inl e
          | Inr jsonResponse \<Rightarrow>
             (case get_prop jsonResponse ''story_part'' of
                Inl e \<Rightarrow> Inl e
              | Inr story_part \<Rightarrow>
                 (case get_prop jsonResponse ''suggestions'' of
                    Inl e \<Rightarrow> Inl e
                  | Inr suggestions \<Rightarrow>
                      Inr (js_or story_part (JStr (not_in_format @ chars t)),
                           js_or suggestions (JArr []))))))"

text \<open>
  The inner \<open>try\<close> with its \<open>catch\<close>: the values of \<open>storyPart\<close> (\<open>None\<close> is
  \<open>undefined\<close>) and \<open>suggestions\<close> after it.
\<close>

definition story_and_suggestions :: "GenerateContentResponse \<Rightarrow> json option \<times> json" where
  "story_and_suggestions response =
     (case parse_response response of
        Inr (storyPart, suggestions) \<Rightarrow> (Some storyPart, suggestions)
      | Inl e \<Rightarrow> (map_option (\<lambda>t. JStr (chars t)) (response_text response), JArr []))"

definition falsy :: "json option \<Rightarrow> bool" where
  "falsy v = (case v of None \<Rightarrow> True | Some x \<Rightarrow> \<not> js_truthy x)"

text \<open>
  The continuation of \<open>sendMessage\<close>. The result is \<open>None\<close> when the response carries a
  story or suggestions that are not of their declared types (a string, an array of
  strings): the model does not follow such values into the rendering code.
\<close>

definition sendMessage_resume :: "call \<Rightarrow> thrown + GenerateContentResponse \<Rightarrow> state \<Rightarrow> state option" where
  "sendMessage_resume c outcome st =
     (case outcome of
        Inl error \<Rightarrow> Some (handleApiError error (loadingIndicator c) st)
      | Inr response \<Rightarrow>
         (let st1 = remove_node (loadingIndicator c) st;
              (storyPart, suggestions) = story_and_suggestions response
          in if falsy storyPart
             then Some (handleApiError (Error missing_story_part) (loadingIndicator c) st1)
             else (case (Option.bind storyPart as_string,
                         case suggestions of JArr vs \<Rightarrow> as_list as_string vs | _ \<Rightarrow> None) of
                     (Some story, Some replies) \<Rightarrow>
                       (let st2 = snd (appendMessage story ''model'' replies st1);
                            st3 = push (model_turn story) st2
                        in Some (scheduleSave st3))
                   | _ \<Rightarrow> None)))"

text \<open>\<open>parts.map((p) => p.text).join('')\<close>\<close>

definition joined_text :: "Content \<Rightarrow> string" where
  "joined_text message = concat (map text' (parts message))"

text \<open>\<open>currentHistory.pop()\<close>: the removed turn, \<open>undefined\<close> on an empty history.\<close>

definition pop :: "state \<Rightarrow> Content option \<times> state" where
  "pop st =
     (case currentHistory st of
        [] \<Rightarrow> (None, st)
      | turn # turns \<Rightarrow>
          (Some (last (turn # turns)), st\<lparr>currentHistory := butlast (turn # turns)\<rparr>))"

text \<open>\<open>regenerateLastResponse\<close> up to the \<open>await\<close> inside its call of \<open>sendMessage\<close>.\<close>

definition regenerateLastResponse :: "state \<Rightarrow> call option \<times> state" where
  "regenerateLastResponse st =
     (if length (currentHistory st) < 2 then (None, st)
      else
        let st1 = st\<lparr>chatContainer := remove_last is_model_message_container (chatContainer st)\<rparr>;
            st2 = st1\<lparr>chatContainer := remove_last is_user_message_container (chatContainer st1)\<rparr>;
            st3 = remove_quick_replies st2;
            st4 = snd (pop st3);
            (lastUserTurn, st5) = pop st4
        in case lastUserTurn of
             None \<Rightarrow> (None, st5)
           | Some turn \<Rightarrow>
               (let lastUserMessage = joined_text turn in sendMessage lastUserMessage st5))"

definition greeting :: string where
  "greeting = ''Greetings, traveler! What story shall we weave today? Give me a prompt, and a tale will unfold.''"

fun replay :: "Content list \<Rightarrow> state \<Rightarrow> state" where
  "replay [] st = st"
| "replay (message # rest) st =
     replay rest (snd (appendMessage (joined_text message) (role message) [] st))"

text \<open>
  \<open>loadChat\<close> has no \<open>await\<close> and runs in one step. It is \<open>None\<close> when the stored record
  is not of the shape \<open>saveChatData\<close> writes (see the casts above).
\<close>

definition loadChat :: "string \<Rightarrow> state \<Rightarrow> state option" where
  "loadChat title st =
     (let st1 = st\<lparr>currentChatTitle := Some title,
                    localStorage := (localStorage st)\<lparr>CURRENT_CHAT := Some title\<rparr>,
                    chatContainer := []\<rparr>
      in case getChatData (localStorage st1) title of
           Inl e \<Rightarrow> None
         | Inr data \<Rightarrow>
            (case (as_Contents (history data), as_string (systemInstruction data)) of
               (Some history', Some systemInstruction') \<Rightarrow>
                 (let st2 = st1\<lparr>currentSystemInstruction := systemInstruction',
                                currentHistory := history'\<rparr>;
                      st3 = replay history' st2
                  in Some (if history' = []
                           then snd (appendMessage greeting ''model'' [] st3) else st3))
             | _ \<Rightarrow> None))"

subsection \<open>Title uniqueness\<close>

text \<open>The titles the loop of \<open>generateTitle\<close> tries after the generated one.\<close>

definition candidate :: "string \<Rightarrow> nat \<Rightarrow> string" where
  "candidate title k = title @ '' '' @ decimal k"

text \<open>
  The \<open>while\<close> loop of \<open>generateTitle\<close>, on the loop variables \<open>finalTitle\<close> and
  \<open>counter\<close>; it returns both as they are when the loop ends.
\<close>

function unique_loop :: "string \<Rightarrow> string list \<Rightarrow> string \<Rightarrow> nat \<Rightarrow> string \<times> nat" where
  "unique_loop title savedChats finalTitle counter =
     (if finalTitle \<in> set savedChats
      then unique_loop title savedChats (title @ '' '' @ decimal counter) (Suc counter)
      else (finalTitle, counter))"
  by pat_completeness auto

text \<open>
  The loop ends: distinct counters print as distinct digits, so each round uses up one of
  the finitely many saved titles of the form \<open>title k\<close>. \<open>taken\<close> counts the ones left
  from \<open>c\<close> on.
\<close>

definition taken :: "string \<Rightarrow> string list \<Rightarrow> nat \<Rightarrow> nat" where
  "taken title xs c = card {k. c \<le> k \<and> candidate title k \<in> set xs}"

lemma decimal_nonempty: "decimal n \<noteq> []"
  by (subst decimal.simps) simp

lemma last_decimal: "last (decimal n) = digit (n mod 10)"
  by (subst decimal.simps) simp

lemma butlast_decimal: "butlast (decimal n) = (if n < 10 then [] else decimal (n div 10))"
  by (subst decimal.simps) simp

lemma digit_inj: "a < 10 \<Longrightarrow> b < 10 \<Longrightarrow> digit a = digit b \<Longrightarrow> a = b"
proof -
  assume a: "a < 10" and b: "b < 10" and e: "digit a = digit b"
  from e have "(of_char (char_of (48 + a)) :: nat) = of_char (char_of (48 + b))"
    by (simp add: digit_def)
  with a b show ?thesis by (simp add: of_char_of)
qed

lemma decimal_inj: "decimal m = decimal n \<Longrightarrow> m = n"
proof (induction m arbitrary: n rule: decimal.induct)
  case (1 m)
  from "1.prems" have l: "last (decimal m) = last (decimal n)"
    and b: "butlast (decimal m) = butlast (decimal n)" by simp_all
  from l have md: "m mod 10 = n mod 10"
    by (simp add: last_decimal digit_inj)
  show ?case
  proof (cases "m < 10")
    case True
    with b have "n < 10"
      using decimal_nonempty[of "n div 10"] by (auto simp: butlast_decimal split: if_splits)
    with True md show ?thesis by simp
  next
    case False
    with b have n: "\<not> n < 10" and "decimal (m div 10) = decimal (n div 10)"
      using decimal_nonempty[of "m div 10"] by (auto simp: butlast_decimal split: if_splits)
    with "1.IH" False have "m div 10 = n div 10" by simp
    with md show ?thesis by (metis div_mult_mod_eq)
  qed
qed


lemma candidate_inj: "candidate title j = candidate title k \<Longrightarrow> j = k"
  by (simp add: candidate_def decimal_inj)

lemma candidate_neq_title: "candidate title k \<noteq> title"
  by (simp add: candidate_def)

lemma finite_taken: "finite {k. c \<le> k \<and> candidate title k \<in> set xs}"
proof -
  have "inj (candidate title)" by (auto intro: injI candidate_inj)
  then have "finite (candidate title -` set xs)" by (simp add: finite_vimageI)
  moreover have "{k. c \<le> k \<and> candidate title k \<in> set xs} \<subseteq> candidate title -` set xs" by auto
  ultimately show ?thesis by (rule rev_finite_subset)
qed

lemma taken_Suc:
  "taken title xs c = taken title xs (Suc c) + (if candidate title c \<in> set xs then 1 else 0)"
proof (cases "candidate title c \<in> set xs")
  case True
  then have "{k. c \<le> k \<and> candidate title k \<in> set xs}
             = insert c {k. Suc c \<le> k \<and> candidate title k \<in> set xs}"
    by (auto simp: Suc_le_eq le_less)
  then show ?thesis using True finite_taken[of "Suc c" title xs] by (simp add: taken_def)
next
  case False
  then have "{k. c \<le> k \<and> candidate title k \<in> set xs}
             = {k. Suc c \<le> k \<and> candidate title k \<in> set xs}"
    by (auto simp: Suc_le_eq le_less)
  then show ?thesis using False by (simp add: taken_def)
qed

termination unique_loop
  apply (relation "measure (\<lambda>(title, savedChats, finalTitle, counter).
          taken title savedChats counter + (if finalTitle \<in> set savedChats then 1 else 0))")
   apply simp
  subgoal for title savedChats finalTitle counter
    using taken_Suc[of title savedChats counter] by (simp add: candidate_def)
  done

declare unique_loop.simps [simp del]

text \<open>
  The title \<open>generateTitle\<close> returns for a generated \<open>title\<close>, and the number of times the
  loop condition \<open>savedChats.includes(finalTitle)\<close> is evaluated (the counter starts at 2
  and is incremented once per round).
\<close>

definition unique_title :: "string \<Rightarrow> string list \<Rightarrow> string" where
  "unique_title title savedChats = fst (unique_loop title savedChats title 2)"

definition includes_tests :: "string \<Rightarrow> string list \<Rightarrow> nat" where
  "includes_tests title savedChats = snd (unique_loop title savedChats title 2) - 1"

subsection \<open>Example data\<close>

text \<open>
  A store with two conversations in the current format, one in the legacy format (a bare
  array), one that is not JSON, and one that is an object with no fields.
\<close>

definition example_store :: Storage where
  "example_store =
     \<lparr>SAVED_CHATS = Some (JSON_stringify (JArr [JStr ''A'', JStr ''B'', JStr ''old'', JStr ''bad''])),
      CURRENT_CHAT = None,
      HISTORY =
        [''A'' \<mapsto> JSON_stringify (JObj [(''history'', JArr []),
                                          (''systemInstruction'', JStr DEFAULT_SYSTEM_INSTRUCTION)]),
         ''B'' \<mapsto> JSON_stringify (JObj [(''history'', JArr []),
                                          (''systemInstruction'', JStr ''Be brief.'')]),
         ''old'' \<mapsto> JSON_stringify (JArr [JObj [(''role'', JStr ''user''),
                                                  (''parts'', JArr [JObj [(''text'', JStr ''hi'')]])]]),
         ''bad'' \<mapsto> \<lparr>chars = ''{oops'', denotes = None\<rparr>,
         ''bare'' \<mapsto> JSON_stringify (JObj [])]\<rparr>"

text \<open>A page on that store, before any conversation is opened.\<close>

definition example_page :: state where
  "example_page =
     \<lparr>localStorage = example_store, chatContainer = [], nextNode = 0, currentHistory = [],
      currentChatTitle = None, currentSystemInstruction = DEFAULT_SYSTEM_INSTRUCTION,
      saveTimeoutId = None, timers = [], nextTimer = 1\<rparr>"

text \<open>The page with conversation \<open>A\<close> open after one complete exchange.\<close>

definition told_page :: state where
  "told_page =
     example_page
       \<lparr>chatContainer := [(1, Message ''user'' ''go left''), (3, Message ''model'' ''you fall''),
                           (4, QuickReplies [''Get up'', ''Call out'', ''Rest''])],
        nextNode := 5,
        currentHistory := [user_turn ''go left'', model_turn ''you fall''],
        currentChatTitle := Some ''A''\<rparr>"

text \<open>
  The same conversation after a second exchange, loaded from a record whose last user turn
  has two parts.
\<close>

definition retold_page :: state where
  "retold_page =
     example_page
       \<lparr>chatContainer := [(1, Message ''user'' ''go left''), (3, Message ''model'' ''you fall''),
                           (5, Message ''user'' ''run away''), (7, Message ''model'' ''you trip''),
                           (8, QuickReplies [''Get up'', ''Call out'', ''Rest''])],
        nextNode := 9,
        currentHistory := [user_turn ''go left'', model_turn ''you fall'',
                           \<lparr>role = ''user'', parts = [\<lparr>text' = ''run ''\<rparr>, \<lparr>text' = ''away''\<rparr>]\<rparr>,
                           model_turn ''you trip''],
        currentChatTitle := Some ''A''\<rparr>"

text \<open>
  Sequencing for the examples: \<open>meanwhile h\<close> runs the handler \<open>h\<close> while a call is in
  flight, \<open>settle outcome\<close> resumes \<open>sendMessage\<close> when the backend settles the call, and
  \<open>stored title\<close> reads what a later \<open>getChatData\<close> would return.
\<close>

definition meanwhile :: "(state \<Rightarrow> state option) \<Rightarrow> call option \<times> state \<Rightarrow> (call option \<times> state) option" where
  "meanwhile h p = map_option (Pair (fst p)) (h (snd p))"

definition settle :: "thrown + GenerateContentResponse \<Rightarrow> call option \<times> state \<Rightarrow> state option" where
  "settle outcome p =
     (case fst p of None \<Rightarrow> None | Some c \<Rightarrow> sendMessage_resume c outcome (snd p))"

definition stored :: "string \<Rightarrow> state \<Rightarrow> exn + ChatData" where
  "stored title st = getChatData (localStorage st) title"

text \<open>Conversation \<open>A\<close> is opened and the user submits \<open>go left\<close>.\<close>

definition asked :: "(call option \<times> state) option" where
  "asked = map_option (sendMessage ''go left'') (loadChat ''A'' example_page)"

text \<open>The user then opens conversation \<open>B\<close> before the backend has answered.\<close>

definition switched :: "(call option \<times> state) option" where
  "switched = Option.bind asked (meanwhile (loadChat ''B''))"

text \<open>Backend responses: a JSON object without \<open>story_part\<close>, an empty text, a response
  that follows the schema, and a text that is not JSON.\<close>

definition reply_without_story :: GenerateContentResponse where
  "reply_without_story =
     \<lparr>response_text = Some (JSON_stringify
        (JObj [(''suggestions'', JArr [JStr ''Go on'', JStr ''Turn back'', JStr ''Wait''])]))\<rparr>"

definition empty_reply :: GenerateContentResponse where
  "empty_reply = \<lparr>response_text = Some \<lparr>chars = [], denotes = None\<rparr>\<rparr>"

definition story_reply :: GenerateContentResponse where
  "story_reply =
     \<lparr>response_text = Some (JSON_stringify
        (JObj [(''story_part'', JStr ''you fall''),
               (''suggestions'', JArr [JStr ''Get up'', JStr ''Call out'', JStr ''Rest''])]))\<rparr>"

definition plain_reply :: GenerateContentResponse where
  "plain_reply = \<lparr>response_text = Some \<lparr>chars = ''Once upon a time...'', denotes = None\<rparr>\<rparr>"

text \<open>
  After the switch to \<open>B\<close>: the backend answers the call made in \<open>A\<close>; or, instead, the
  save timer set by that call expires.
\<close>

definition answered_after_switch :: "state option" where
  "answered_after_switch = Option.bind switched (settle (Inr story_reply))"

definition expired_after_switch :: "state option" where
  "expired_after_switch = map_option (\<lambda>p. timeout 1 (snd p)) switched"

section \<open>Properties\<close>

subsection \<open>Title uniqueness\<close>

lemma unique_loop_result:
  "unique_loop title xs ft c = (r, c') \<Longrightarrow>
     r \<notin> set xs \<and> c \<le> c' \<and>
     (if ft \<in> set xs
      then c < c' \<and> r = candidate title (c' - 1) \<and> (\<forall>k. c \<le> k \<and> k < c' - 1 \<longrightarrow> candidate title k \<in> set xs)
      else c' = c \<and> r = ft)"
proof (induction title xs ft c arbitrary: r c' rule: unique_loop.induct)
  case (1 title savedChats finalTitle counter)
  show ?case
  proof (cases "finalTitle \<in> set savedChats")
    case False
    with "1.prems" show ?thesis by (simp add: unique_loop.simps)
  next
    case True
    with "1.prems" have rec: "unique_loop title savedChats (title @ '' '' @ decimal counter) (Suc counter) = (r, c')"
      by (simp add: unique_loop.simps)
    note IH = "1.IH"[OF True rec, folded candidate_def]
    from IH have r: "r \<notin> set savedChats" and le: "Suc counter \<le> c'"
      and rest: "if candidate title counter \<in> set savedChats
        then Suc counter < c' \<and> r = candidate title (c' - 1) \<and> (\<forall>k. Suc counter \<le> k \<and> k < c' - 1 \<longrightarrow> candidate title k \<in> set savedChats)
        else c' = Suc counter \<and> r = candidate title counter"
      by blast+
    show ?thesis
    proof (cases "candidate title counter \<in> set savedChats")
      case True
      with rest have "Suc counter < c'" "r = candidate title (c' - 1)"
        and all: "\<forall>k. Suc counter \<le> k \<and> k < c' - 1 \<longrightarrow> candidate title k \<in> set savedChats" by simp_all
      moreover have "\<forall>k. counter \<le> k \<and> k < c' - 1 \<longrightarrow> candidate title k \<in> set savedChats"
        using all True by (metis le_neq_implies_less Suc_leI)
      ultimately show ?thesis using \<open>finalTitle \<in> set savedChats\<close> r by simp
    next
      case False
      with rest have "c' = Suc counter" "r = candidate title counter" by simp_all
      then show ?thesis using \<open>finalTitle \<in> set savedChats\<close> r by auto
    qed
  qed
qed


lemma iterations_bound:
  assumes "unique_loop title xs title 2 = (r, c')"
  shows "c' - 2 \<le> card (set xs)"
proof (cases "title \<in> set xs")
  case False
  with unique_loop_result[OF assms] show ?thesis by simp
next
  case True
  with unique_loop_result[OF assms] have c: "2 < c'"
    and all: "\<forall>k. 2 \<le> k \<and> k < c' - 1 \<longrightarrow> candidate title k \<in> set xs" by simp_all
  have "inj_on (candidate title) {2..<c' - 1}" by (auto intro: inj_onI candidate_inj)
  then have card: "card (candidate title ` {2..<c' - 1}) = c' - 3" by (simp add: card_image)
  have sub: "insert title (candidate title ` {2..<c' - 1}) \<subseteq> set xs" using all True by auto
  have "title \<notin> candidate title ` {2..<c' - 1}"
  proof
    assume "title \<in> candidate title ` {2..<c' - 1}"
    then obtain k where "title = candidate title k" by (rule imageE)
    then show False using candidate_neq_title[of title k] by metis
  qed
  then have "card (insert title (candidate title ` {2..<c' - 1})) = Suc (c' - 3)"
    using card by simp
  with card_mono[OF _ sub] c show ?thesis by simp
qed

text \<open>
  C6. The title-uniqueness algorithm returns a title that is not in the catalog: the
  candidate itself when it is not in the catalog, and otherwise the candidate followed by
  a space and the first of the numbers 2, 3, ... for which the result is not in the
  catalog. With catalog \<open>["A"]\<close> the candidate \<open>"A"\<close> yields \<open>"A 2"\<close>, with
  \<open>["A", "A 2"]\<close> it yields \<open>"A 3"\<close>. The algorithm is a function of the candidate and the
  catalog, it terminates (\<open>unique_loop\<close> is total), and it tests the catalog at most
  catalog size + 1 times.
\<close>

theorem unique_title_spec:
  "unique_title title savedChats \<notin> set savedChats \<and>
   (title \<notin> set savedChats \<longrightarrow> unique_title title savedChats = title) \<and>
   (title \<in> set savedChats \<longrightarrow>
      (\<exists>k. 2 \<le> k \<and> unique_title title savedChats = title @ '' '' @ decimal k \<and>
           (\<forall>j. 2 \<le> j \<and> j < k \<longrightarrow> title @ '' '' @ decimal j \<in> set savedChats))) \<and>
   unique_title ''A'' [''A''] = ''A 2'' \<and>
   unique_title ''A'' [''A'', ''A 2''] = ''A 3'' \<and>
   includes_tests title savedChats \<le> length savedChats + 1"
proof -
  obtain r c' where loop: "unique_loop title savedChats title 2 = (r, c')"
    by (cases "unique_loop title savedChats title 2")
  note res = unique_loop_result[OF loop]
  have r: "unique_title title savedChats = r" by (simp add: unique_title_def loop)
  have 1: "unique_title title savedChats \<notin> set savedChats" using res r by simp
  have 2: "title \<notin> set savedChats \<longrightarrow> unique_title title savedChats = title"
    using res r by simp
  have 3: "title \<in> set savedChats \<longrightarrow>
      (\<exists>k. 2 \<le> k \<and> unique_title title savedChats = title @ '' '' @ decimal k \<and>
           (\<forall>j. 2 \<le> j \<and> j < k \<longrightarrow> title @ '' '' @ decimal j \<in> set savedChats))"
  proof
    assume "title \<in> set savedChats"
    with res have "2 < c'" "r = candidate title (c' - 1)"
      "\<forall>k. 2 \<le> k \<and> k < c' - 1 \<longrightarrow> candidate title k \<in> set savedChats" by simp_all
    then have "2 \<le> c' - 1 \<and> unique_title title savedChats = title @ '' '' @ decimal (c' - 1) \<and>
           (\<forall>j. 2 \<le> j \<and> j < c' - 1 \<longrightarrow> title @ '' '' @ decimal j \<in> set savedChats)"
      using r unfolding candidate_def by auto
    then show "\<exists>k. 2 \<le> k \<and> unique_title title savedChats = title @ '' '' @ decimal k \<and>
           (\<forall>j. 2 \<le> j \<and> j < k \<longrightarrow> title @ '' '' @ decimal j \<in> set savedChats)" ..
  qed
  have 4: "unique_title ''A'' [''A''] = ''A 2''" by code_simp
  have 5: "unique_title ''A'' [''A'', ''A 2''] = ''A 3''" by code_simp
  have "c' - 2 \<le> length savedChats"
    using iterations_bound[OF loop] card_length[of savedChats] by simp
  then have 6: "includes_tests title savedChats \<le> length savedChats + 1"
    by (simp add: includes_tests_def loop)
  from 1 2 3 4 5 6 show ?thesis by blast
qed

theorem unique_title_spec_witness:
  "''A'' \<in> set [''A'', ''A 2''] \<and>
   unique_title ''A'' [''A'', ''A 2''] \<notin> set [''A'', ''A 2''] \<and>
   unique_title ''A'' [''A'', ''A 2''] = ''A 3'' \<and>
   includes_tests ''A'' [''A'', ''A 2''] \<le> 3 \<and>
   ''B'' \<notin> set [''A'', ''A 2''] \<and>
   unique_title ''B'' [''A'', ''A 2''] = ''B''"
  using unique_title_spec[of "''A''" "[''A'', ''A 2'']"] unique_title_spec[of "''B''" "[''A'', ''A 2'']"]
  by simp


subsection \<open>ChatDataStore\<close>

lemma DEFAULT_nonempty: "DEFAULT_SYSTEM_INSTRUCTION \<noteq> []"
  by (simp add: DEFAULT_SYSTEM_INSTRUCTION_def)

lemma as_list_Part_json: "as_list as_Part (map Part_json ps) = Some ps"
  by (induction ps) (simp_all add: Part_json_def)

lemma as_Content_json: "as_Content (Content_json c) = Some c"
  by (simp add: Content_json_def as_list_Part_json)

lemma as_Contents_json: "as_Contents (Contents_json cs) = Some cs"
  unfolding Contents_json_def by (induction cs) (simp_all add: as_Content_json)

lemma getChatData_saveChatData:
  "getChatData (saveChatData title turns si ls) title =
     Inr \<lparr>history = Contents_json turns,
          systemInstruction = JStr (if si = [] then DEFAULT_SYSTEM_INSTRUCTION else si)\<rparr>"
  by (simp add: getChatData_def saveChatData_def getChatData_try_def JSON_parse_def
      JSON_stringify_def js_or_def Contents_json_def)

lemma getChatData_cases:
  "getChatData ls title =
     (case HISTORY ls title of
        None \<Rightarrow> Inr empty_ChatData
      | Some rawData \<Rightarrow>
         (case JSON_parse rawData of
            Inl e \<Rightarrow> Inr empty_ChatData
          | Inr JNull \<Rightarrow> Inr empty_ChatData
          | Inr (JArr xs) \<Rightarrow> Inr \<lparr>history = JArr xs, systemInstruction = JStr DEFAULT_SYSTEM_INSTRUCTION\<rparr>
          | Inr v \<Rightarrow> Inr \<lparr>history = js_or (projr (get_prop v ''history'')) (JArr []),
                         systemInstruction = js_or (projr (get_prop v ''systemInstruction''))
                                               (JStr DEFAULT_SYSTEM_INSTRUCTION)\<rparr>))"
  by (auto simp: getChatData_def getChatData_try_def JSON_parse_def
      split: option.splits sum.splits json.splits)

text \<open>
  C4. Saving a conversation and loading it again returns what was saved: the same turns in
  the same order and the same system instruction, provided the instruction is not empty
  (the turn list may be any list, in particular any non-empty one). The first conjunct is
  the value \<open>getChatData\<close> returns, the other two read it at the declared types.
\<close>

theorem save_then_load:
  assumes "si \<noteq> []"
  shows "getChatData (saveChatData title turns si ls) title =
           Inr \<lparr>history = Contents_json turns, systemInstruction = JStr si\<rparr>
         \<and> as_Contents (Contents_json turns) = Some turns
         \<and> as_string (JStr si) = Some si"
  using assms by (simp add: getChatData_saveChatData as_Contents_json)

theorem save_then_load_witness:
  "''Be brief.'' \<noteq> [] \<and>
   getChatData (saveChatData ''A'' [user_turn ''go left'', model_turn ''you fall''] ''Be brief.''
                  example_store) ''A'' =
     Inr \<lparr>history = Contents_json [user_turn ''go left'', model_turn ''you fall''],
          systemInstruction = JStr ''Be brief.''\<rparr>"
  using save_then_load[of "''Be brief.''" "''A''" "[user_turn ''go left'', model_turn ''you fall'']"
      example_store]
  by simp

text \<open>
  C7. \<open>getChatData\<close> never throws: it returns a value for every store and title. For an
  absent record that value is the empty conversation with the default instruction; for a
  stored bare array it is that array as the turns, with the default instruction; for a
  stored text that is not JSON it is the empty conversation with the default instruction.
\<close>

theorem getChatData_total:
  "(\<exists>d. getChatData ls title = Inr d) \<and>
   (HISTORY ls title = None \<longrightarrow> getChatData ls title = Inr empty_ChatData) \<and>
   (\<forall>rawData xs. HISTORY ls title = Some rawData \<and> JSON_parse rawData = Inr (JArr xs) \<longrightarrow>
      getChatData ls title =
        Inr \<lparr>history = JArr xs, systemInstruction = JStr DEFAULT_SYSTEM_INSTRUCTION\<rparr>) \<and>
   (\<forall>rawData e. HISTORY ls title = Some rawData \<and> JSON_parse rawData = Inl e \<longrightarrow>
      getChatData ls title = Inr empty_ChatData)"
  by (auto simp: getChatData_cases split: option.splits sum.splits json.splits)

theorem getChatData_total_witness:
  "HISTORY example_store ''none'' = None \<and>
   getChatData example_store ''none'' = Inr empty_ChatData \<and>
   JSON_parse (the (HISTORY example_store ''old'')) = Inr (JArr [Content_json (user_turn ''hi'')]) \<and>
   getChatData example_store ''old'' =
     Inr \<lparr>history = JArr [Content_json (user_turn ''hi'')],
          systemInstruction = JStr DEFAULT_SYSTEM_INSTRUCTION\<rparr> \<and>
   JSON_parse (the (HISTORY example_store ''bad'')) = Inl SyntaxError \<and>
   getChatData example_store ''bad'' = Inr empty_ChatData"
  using getChatData_total[of example_store "''none''"] getChatData_total[of example_store "''old''"]
    getChatData_total[of example_store "''bad''"]
  by (simp add: example_store_def JSON_parse_def JSON_stringify_def Content_json_def Part_json_def
      user_turn_def)

text \<open>
  C10. \<open>getChatData\<close> never returns an empty (or otherwise falsy) system instruction. For
  a stored JSON object, a missing or empty \<open>systemInstruction\<close> is replaced by the default
  instruction and a missing \<open>history\<close> by the empty list. Consequently a conversation saved
  with an empty instruction is loaded with the default one.
\<close>

theorem getChatData_normalizes:
  "(\<forall>d. getChatData ls title = Inr d \<longrightarrow> js_truthy (systemInstruction d) \<and> systemInstruction d \<noteq> JStr []) \<and>
   (\<forall>rawData kvs d.
      HISTORY ls title = Some rawData \<and> JSON_parse rawData = Inr (JObj kvs) \<and>
      getChatData ls title = Inr d \<longrightarrow>
      (map_of kvs ''systemInstruction'' = None \<or> map_of kvs ''systemInstruction'' = Some (JStr [])
         \<longrightarrow> systemInstruction d = JStr DEFAULT_SYSTEM_INSTRUCTION) \<and>
      (map_of kvs ''history'' = None \<longrightarrow> history d = JArr [])) \<and>
   getChatData (saveChatData title turns [] ls) title =
     Inr \<lparr>history = Contents_json turns, systemInstruction = JStr DEFAULT_SYSTEM_INSTRUCTION\<rparr>"
proof -
  have 1: "\<forall>d. getChatData ls title = Inr d \<longrightarrow>
             js_truthy (systemInstruction d) \<and> systemInstruction d \<noteq> JStr []"
    by (auto simp: getChatData_cases js_or_def empty_ChatData_def DEFAULT_nonempty
        split: option.splits sum.splits json.splits if_splits)
  have 2: "\<forall>rawData kvs d.
      HISTORY ls title = Some rawData \<and> JSON_parse rawData = Inr (JObj kvs) \<and>
      getChatData ls title = Inr d \<longrightarrow>
      (map_of kvs ''systemInstruction'' = None \<or> map_of kvs ''systemInstruction'' = Some (JStr [])
         \<longrightarrow> systemInstruction d = JStr DEFAULT_SYSTEM_INSTRUCTION) \<and>
      (map_of kvs ''history'' = None \<longrightarrow> history d = JArr [])"
    by (auto simp: getChatData_cases js_or_def)
  have 3: "getChatData (saveChatData title turns [] ls) title =
     Inr \<lparr>history = Contents_json turns, systemInstruction = JStr DEFAULT_SYSTEM_INSTRUCTION\<rparr>"
    by (simp add: getChatData_saveChatData)
  from 1 2 3 show ?thesis by blast
qed

theorem getChatData_normalizes_witness:
  "HISTORY example_store ''bare'' = Some (JSON_stringify (JObj [])) \<and>
   JSON_parse (JSON_stringify (JObj [])) = Inr (JObj []) \<and>
   map_of ([] :: (string \<times> json) list) ''systemInstruction'' = None \<and>
   map_of ([] :: (string \<times> json) list) ''history'' = None \<and>
   getChatData example_store ''bare'' = Inr empty_ChatData"
  using getChatData_normalizes[of example_store "''bare''"]
  by (simp add: example_store_def JSON_parse_def JSON_stringify_def empty_ChatData_def getChatData_cases js_or_def)

subsection \<open>Frame lemmas\<close>

lemma appendMessage_frame [simp]:
  "currentHistory (snd (appendMessage content sender suggestions st)) = currentHistory st"
  "localStorage (snd (appendMessage content sender suggestions st)) = localStorage st"
  "currentChatTitle (snd (appendMessage content sender suggestions st)) = currentChatTitle st"
  "currentSystemInstruction (snd (appendMessage content sender suggestions st)) = currentSystemInstruction st"
  "saveTimeoutId (snd (appendMessage content sender suggestions st)) = saveTimeoutId st"
  "timers (snd (appendMessage content sender suggestions st)) = timers st"
  "nextTimer (snd (appendMessage content sender suggestions st)) = nextTimer st"
  by (simp_all add: appendMessage_def Let_def remove_quick_replies_def appendChild_def)

lemma appendMessage_plain:
  "chatContainer (snd (appendMessage content sender [] st)) =
     remove_first is_quick_replies (chatContainer st) @ [(nextNode st, Message sender content)]"
  "fst (appendMessage content sender suggestions st) = nextNode st"
  "nextNode (snd (appendMessage content sender [] st)) = Suc (nextNode st)"
  by (simp_all add: appendMessage_def Let_def remove_quick_replies_def appendChild_def)

lemma remove_node_frame [simp]:
  "currentHistory (remove_node i st) = currentHistory st"
  "localStorage (remove_node i st) = localStorage st"
  "currentChatTitle (remove_node i st) = currentChatTitle st"
  "currentSystemInstruction (remove_node i st) = currentSystemInstruction st"
  "saveTimeoutId (remove_node i st) = saveTimeoutId st"
  "timers (remove_node i st) = timers st"
  "nextTimer (remove_node i st) = nextTimer st"
  "nextNode (remove_node i st) = nextNode st"
  "chatContainer (remove_node i st) = filter (\<lambda>n. fst n \<noteq> i) (chatContainer st)"
  by (simp_all add: remove_node_def)

lemma scheduleSave_frame [simp]:
  "currentHistory (scheduleSave st) = currentHistory st"
  "localStorage (scheduleSave st) = localStorage st"
  "currentChatTitle (scheduleSave st) = currentChatTitle st"
  "currentSystemInstruction (scheduleSave st) = currentSystemInstruction st"
  "chatContainer (scheduleSave st) = chatContainer st"
  "nextNode (scheduleSave st) = nextNode st"
  by (simp_all add: scheduleSave_def Let_def clearTimeout_def split: option.splits)

lemma handleApiError_frame [simp]:
  "currentHistory (handleApiError error i st) = currentHistory st"
  "localStorage (handleApiError error i st) = localStorage st"
  "currentChatTitle (handleApiError error i st) = currentChatTitle st"
  "currentSystemInstruction (handleApiError error i st) = currentSystemInstruction st"
  "saveTimeoutId (handleApiError error i st) = saveTimeoutId st"
  "timers (handleApiError error i st) = timers st"
  by (simp_all add: handleApiError_def)

lemma handleApiError_chatContainer:
  "chatContainer (handleApiError error i st) =
     remove_first is_quick_replies (filter (\<lambda>n. fst n \<noteq> i) (chatContainer st))
       @ [(nextNode st, Message ''model'' (''<strong>Error:</strong> '' @ userFriendlyMessage error))]"
  by (simp add: handleApiError_def appendMessage_plain)

lemma push_frame [simp]:
  "currentHistory (push turn st) = currentHistory st @ [turn]"
  "localStorage (push turn st) = localStorage st"
  "currentChatTitle (push turn st) = currentChatTitle st"
  "currentSystemInstruction (push turn st) = currentSystemInstruction st"
  "saveTimeoutId (push turn st) = saveTimeoutId st"
  "timers (push turn st) = timers st"
  "nextTimer (push turn st) = nextTimer st"
  "chatContainer (push turn st) = chatContainer st"
  "nextNode (push turn st) = nextNode st"
  by (simp_all add: push_def)

lemma sendMessage_active:
  assumes "\<not> no_title (currentChatTitle st)"
  shows "\<exists>c st1. sendMessage userMessage st = (Some c, st1)
           \<and> currentHistory st1 = currentHistory st @ [user_turn userMessage]
           \<and> contents c = currentHistory st @ [user_turn userMessage]
           \<and> config_systemInstruction c = currentSystemInstruction st @ IMPORTANT
           \<and> localStorage st1 = localStorage st
           \<and> currentChatTitle st1 = currentChatTitle st
           \<and> (loadingIndicator c, Message ''loading'' []) \<in> set (chatContainer st1)"
  using assms
  by (simp add: sendMessage_def Let_def split_beta appendMessage_plain remove_quick_replies_def
      push_def)

lemma replay_frame [simp]:
  "currentHistory (replay ms st) = currentHistory st"
  "localStorage (replay ms st) = localStorage st"
  "currentChatTitle (replay ms st) = currentChatTitle st"
  "currentSystemInstruction (replay ms st) = currentSystemInstruction st"
  "saveTimeoutId (replay ms st) = saveTimeoutId st"
  "timers (replay ms st) = timers st"
  "nextTimer (replay ms st) = nextTimer st"
  by (induction ms arbitrary: st) simp_all

lemma getChatData_CURRENT_CHAT [simp]:
  "getChatData (ls\<lparr>CURRENT_CHAT := x\<rparr>) title = getChatData ls title"
  by (simp add: getChatData_def)

lemma loadChat_Some:
  assumes "loadChat title st = Some st'"
  shows "currentChatTitle st' = Some title"
    and "HISTORY (localStorage st') = HISTORY (localStorage st)"
    and "timers st' = timers st"
    and "saveTimeoutId st' = saveTimeoutId st"
    and "\<exists>d. getChatData (localStorage st) title = Inr d
           \<and> as_Contents (history d) = Some (currentHistory st')
           \<and> as_string (systemInstruction d) = Some (currentSystemInstruction st')"
  using assms
  by (auto simp: loadChat_def Let_def split: sum.splits option.splits if_splits)

lemma pending_ok_cong:
  "timers st' = timers st \<Longrightarrow> saveTimeoutId st' = saveTimeoutId st \<Longrightarrow> pending_ok st' = pending_ok st"
  by (simp add: pending_ok_def)

lemma scheduleSave_single:
  assumes "pending_ok st"
  shows "timers (scheduleSave st) = [nextTimer st]"
    and "saveTimeoutId (scheduleSave st) = Some (nextTimer st)"
    and "pending_ok (scheduleSave st)"
proof -
  have "filter (\<lambda>j. j \<noteq> i) (timers st) = []" if "saveTimeoutId st = Some i" for i
    using assms that by (auto simp: pending_ok_def filter_empty_conv)
  moreover have "timers st = []" if "saveTimeoutId st = None"
    using assms that by (cases "timers st") (auto simp: pending_ok_def)
  ultimately show "timers (scheduleSave st) = [nextTimer st]"
    by (simp add: scheduleSave_def Let_def clearTimeout_def split: option.splits)
  show "saveTimeoutId (scheduleSave st) = Some (nextTimer st)"
    by (simp add: scheduleSave_def Let_def clearTimeout_def split: option.splits)
  with \<open>timers (scheduleSave st) = [nextTimer st]\<close> show "pending_ok (scheduleSave st)"
    by (simp add: pending_ok_def)
qed

lemma timeout_set:
  assumes "timers st = [t]"
  shows "timers (timeout t st) = []"
    and "localStorage (timeout t st) =
          (case currentChatTitle st of
             None \<Rightarrow> localStorage st
           | Some title \<Rightarrow>
               if title = [] then localStorage st
               else saveChatData title (currentHistory st) (currentSystemInstruction st)
                      (localStorage st))"
  using assms by (simp_all add: timeout_def save_callback_def split: option.splits)

lemma timeout_cleared: "i \<notin> set (timers st) \<Longrightarrow> timeout i st = st"
  by (simp add: timeout_def)

lemma sendMessage_timers:
  assumes "sendMessage userMessage st = (c, st1)" "pending_ok st"
  shows "pending_ok st1"
proof (cases "no_title (currentChatTitle st)")
  case True
  with assms show ?thesis by (simp add: sendMessage_def)
next
  case False
  with assms(1) obtain st0 where "st1 = scheduleSave st0" "timers st0 = timers st"
    "saveTimeoutId st0 = saveTimeoutId st"
    by (auto simp: sendMessage_def Let_def split_beta remove_quick_replies_def)
  with assms(2) show ?thesis using scheduleSave_single(3) pending_ok_cong by metis
qed

lemma story_and_suggestions_structured:
  assumes "response_text response = Some t" "JSON_parse t = Inr (JObj kvs)"
    "map_of kvs ''story_part'' = Some (JStr story)" "story \<noteq> []"
    "map_of kvs ''suggestions'' = Some (JArr vs)"
  shows "story_and_suggestions response = (Some (JStr story), JArr vs)"
  using assms by (simp add: story_and_suggestions_def parse_response_def js_or_def)

lemma sendMessage_resume_structured:
  assumes "response_text response = Some t" "JSON_parse t = Inr (JObj kvs)"
    "map_of kvs ''story_part'' = Some (JStr story)" "story \<noteq> []"
    "map_of kvs ''suggestions'' = Some (JArr vs)" "as_list as_string vs = Some replies"
  shows "sendMessage_resume c (Inr response) st =
           Some (scheduleSave (push (model_turn story)
                   (snd (appendMessage story ''model'' replies (remove_node (loadingIndicator c) st)))))"
  using assms
  by (simp add: sendMessage_resume_def story_and_suggestions_structured[OF assms(1-5)] falsy_def Let_def)

lemma story_and_suggestions_unparseable:
  assumes "response_text response = Some t" "JSON_parse t = Inl e"
  shows "story_and_suggestions response = (Some (JStr (chars t)), JArr [])"
  using assms by (simp add: story_and_suggestions_def parse_response_def)

subsection \<open>TurnController\<close>

text \<open>
  C9. When the backend call of a submitted turn throws, the user turn that \<open>sendMessage\<close>
  appended stays in the history, no model turn is appended, nothing is written to the
  store, and the failure is caught: \<open>sendMessage\<close> completes, and the pending indicator is
  replaced by exactly one message, the classification \<open>userFriendlyMessage\<close> of what was
  thrown.
\<close>

theorem backend_failure:
  assumes "\<not> no_title (currentChatTitle st)"
  shows "\<exists>c st1 st2.
           sendMessage userMessage st = (Some c, st1) \<and>
           currentHistory st1 = currentHistory st @ [user_turn userMessage] \<and>
           sendMessage_resume c (Inl error) st1 = Some st2 \<and>
           currentHistory st2 = currentHistory st @ [user_turn userMessage] \<and>
           localStorage st2 = localStorage st \<and>
           chatContainer st2 =
             remove_first is_quick_replies
               (filter (\<lambda>n. fst n \<noteq> loadingIndicator c) (chatContainer st1))
             @ [(nextNode st1,
                 Message ''model'' (''<strong>Error:</strong> '' @ userFriendlyMessage error))]"
proof -
  from sendMessage_active[OF assms, of userMessage] obtain c st1
    where s: "sendMessage userMessage st = (Some c, st1)"
      and h: "currentHistory st1 = currentHistory st @ [user_turn userMessage]"
      and l: "localStorage st1 = localStorage st" by blast
  have r: "sendMessage_resume c (Inl error) st1 = Some (handleApiError error (loadingIndicator c) st1)"
    by (simp add: sendMessage_resume_def)
  show ?thesis
    using s h l r by (simp add: handleApiError_chatContainer)
qed



theorem backend_failure_witness:
  "\<not> no_title (currentChatTitle told_page) \<and>
   fst (sendMessage ''run'' told_page) \<noteq> None \<and>
   map_option currentHistory (settle (Inl (Error ''503 Service Unavailable'')) (sendMessage ''run'' told_page)) =
     Some [user_turn ''go left'', model_turn ''you fall'', user_turn ''run''] \<and>
   map_option chatContainer (settle (Inl (Error ''503 Service Unavailable'')) (sendMessage ''run'' told_page)) =
     Some [(1, Message ''user'' ''go left''), (3, Message ''model'' ''you fall''),
           (5, Message ''user'' ''run''),
           (7, Message ''model'' ''<strong>Error:</strong> The service is temporarily unavailable. Please try again in a few moments.'')]"
proof -
  have active: "\<not> no_title (currentChatTitle told_page)" by code_simp
  have "fst (sendMessage ''run'' told_page) \<noteq> None \<and>
   map_option currentHistory (settle (Inl (Error ''503 Service Unavailable'')) (sendMessage ''run'' told_page)) =
     Some [user_turn ''go left'', model_turn ''you fall'', user_turn ''run''] \<and>
   map_option chatContainer (settle (Inl (Error ''503 Service Unavailable'')) (sendMessage ''run'' told_page)) =
     Some [(1, Message ''user'' ''go left''), (3, Message ''model'' ''you fall''),
           (5, Message ''user'' ''run''),
           (7, Message ''model'' ''<strong>Error:</strong> The service is temporarily unavailable. Please try again in a few moments.'')]"
    by code_simp
  with active backend_failure[OF active, of "''run''" "Error ''503 Service Unavailable''"]
  show ?thesis by blast
qed

text \<open>
  C1, evaluated where the code departs from it. The backend answers \<open>go left\<close> with a JSON
  object that has suggestions and no \<open>story_part\<close>. The turn is not failed: no error is
  classified, the fallback text that \<open>||\<close> puts in place of the missing story is shown as
  the model's message, and a model turn holding it is appended to the history.
\<close>

theorem sendMessage_missing_story_part:
  \<open>response_text reply_without_story =
     Some \<lparr>chars = ''{"suggestions":["Go on","Turn back","Wait"]}'',
           denotes = Some (JObj [(''suggestions'',
                                  JArr [JStr ''Go on'', JStr ''Turn back'', JStr ''Wait''])])\<rparr> \<and>
   map_of [(''suggestions'', JArr [JStr ''Go on'', JStr ''Turn back'', JStr ''Wait''])] ''story_part''
     = None \<and>
   map_option currentHistory (Option.bind asked (settle (Inr reply_without_story))) =
     Some [user_turn ''go left'',
           model_turn ''Error: The model's response was not in the correct format. Here is the raw response: {"suggestions":["Go on","Turn back","Wait"]}''] \<and>
   map_option chatContainer (Option.bind asked (settle (Inr reply_without_story))) =
     Some [(0, Message ''model'' greeting), (1, Message ''user'' ''go left''),
           (3, Message ''model'' ''Error: The model's response was not in the correct format. Here is the raw response: {"suggestions":["Go on","Turn back","Wait"]}''),
           (4, QuickReplies [''Go on'', ''Turn back'', ''Wait''])]\<close>
  by code_simp

text \<open>
  Against C8 as stated: the empty text does not parse as JSON, and the turn fails. The
  test of \<open>storyPart\<close> after the inner \<open>try\<close> throws, no model turn is appended, and the
  error is shown.
\<close>

theorem empty_reply_fails:
  "JSON_parse \<lparr>chars = [], denotes = None\<rparr> = Inl SyntaxError \<and>
   map_option currentHistory (Option.bind asked (settle (Inr empty_reply))) =
     Some [user_turn ''go left''] \<and>
   map_option chatContainer (Option.bind asked (settle (Inr empty_reply))) =
     Some [(0, Message ''model'' greeting), (1, Message ''user'' ''go left''),
           (3, Message ''model'' (''<strong>Error:</strong> Could not get a response. '' @ missing_story_part))]"
  by code_simp

text \<open>
  C8, amended. When the text of the response does not parse as JSON and is not empty, the
  turn succeeds: the text itself is the story, shown as the model's message and appended
  as the model turn, there are no suggestions (no quick replies are added), and no error
  is raised.
\<close>

theorem unparseable_reply:
  assumes "response_text response = Some t" and "JSON_parse t = Inl e" and "chars t \<noteq> []"
  shows "story_and_suggestions response = (Some (JStr (chars t)), JArr []) \<and>
         (\<exists>st'. sendMessage_resume c (Inr response) st = Some st' \<and>
            currentHistory st' = currentHistory st @ [model_turn (chars t)] \<and>
            chatContainer st' =
              remove_first is_quick_replies
                (filter (\<lambda>n. fst n \<noteq> loadingIndicator c) (chatContainer st))
              @ [(nextNode st, Message ''model'' (chars t))])"
  using assms
  by (simp add: story_and_suggestions_unparseable[OF assms(1,2)] sendMessage_resume_def falsy_def
      appendMessage_plain)

theorem unparseable_reply_witness:
  "response_text plain_reply = Some \<lparr>chars = ''Once upon a time...'', denotes = None\<rparr> \<and>
   JSON_parse \<lparr>chars = ''Once upon a time...'', denotes = None\<rparr> = Inl SyntaxError \<and>
   ''Once upon a time...'' \<noteq> [] \<and>
   story_and_suggestions plain_reply = (Some (JStr ''Once upon a time...''), JArr []) \<and>
   map_option currentHistory (Option.bind asked (settle (Inr plain_reply))) =
     Some [user_turn ''go left'', model_turn ''Once upon a time...''] \<and>
   map_option chatContainer (Option.bind asked (settle (Inr plain_reply))) =
     Some [(0, Message ''model'' greeting), (1, Message ''user'' ''go left''),
           (3, Message ''model'' ''Once upon a time...'')]"
proof -
  have 1: "response_text plain_reply = Some \<lparr>chars = ''Once upon a time...'', denotes = None\<rparr>"
    by (simp add: plain_reply_def)
  have 2: "JSON_parse \<lparr>chars = ''Once upon a time...'', denotes = None\<rparr> = Inl SyntaxError"
    by (simp add: JSON_parse_def)
  have 3: "chars \<lparr>chars = ''Once upon a time...'', denotes = None\<rparr> \<noteq> []" by simp
  have "map_option currentHistory (Option.bind asked (settle (Inr plain_reply))) =
     Some [user_turn ''go left'', model_turn ''Once upon a time...''] \<and>
   map_option chatContainer (Option.bind asked (settle (Inr plain_reply))) =
     Some [(0, Message ''model'' greeting), (1, Message ''user'' ''go left''),
           (3, Message ''model'' ''Once upon a time...'')]"
    by code_simp
  with 1 2 unparseable_reply[OF 1 2 3] show ?thesis by simp
qed

text \<open>
  C3. With fewer than two turns \<open>regenerateLastResponse\<close> does nothing. With a history
  ending in a turn \<open>u\<close> followed by a turn \<open>m\<close> it removes exactly these two (and their
  messages from the transcript) and calls \<open>sendMessage\<close> with the text of \<open>u\<close>, which is
  the texts of the parts of \<open>u\<close> one after the other (the text \<open>x\<close> itself for a turn
  with the one part \<open>x\<close>, as \<open>sendMessage\<close> makes them). With a conversation open, that
  call appends a user turn with this text in place of the two, and sends the history so
  obtained to the backend.
\<close>

theorem regenerateLastResponse_spec:
  "(length (currentHistory st) < 2 \<longrightarrow> regenerateLastResponse st = (None, st)) \<and>
   (currentHistory st = turns @ [u, m] \<longrightarrow>
      regenerateLastResponse st =
        sendMessage (concat (map text' (parts u)))
          (st\<lparr>chatContainer :=
                remove_first is_quick_replies
                  (remove_last is_user_message_container
                     (remove_last is_model_message_container (chatContainer st))),
              currentHistory := turns\<rparr>) \<and>
      (\<not> no_title (currentChatTitle st) \<longrightarrow>
         (\<exists>c. fst (regenerateLastResponse st) = Some c \<and>
              contents c =
                turns @ [\<lparr>role = ''user'', parts = [\<lparr>text' = concat (map text' (parts u))\<rparr>]\<rparr>]) \<and>
         currentHistory (snd (regenerateLastResponse st)) =
           turns @ [\<lparr>role = ''user'', parts = [\<lparr>text' = concat (map text' (parts u))\<rparr>]\<rparr>] \<and>
         (\<forall>x. u = \<lparr>role = ''user'', parts = [\<lparr>text' = x\<rparr>]\<rparr> \<longrightarrow>
              currentHistory (snd (regenerateLastResponse st)) = turns @ [u])))"
proof -
  let ?text = "concat (map text' (parts u))"
  let ?turn = "\<lparr>role = ''user'', parts = [\<lparr>text' = ?text\<rparr>]\<rparr>"
  let ?st = "st\<lparr>chatContainer :=
                remove_first is_quick_replies
                  (remove_last is_user_message_container
                     (remove_last is_model_message_container (chatContainer st))),
              currentHistory := turns\<rparr>"
  have 1: "length (currentHistory st) < 2 \<longrightarrow> regenerateLastResponse st = (None, st)"
    by (simp add: regenerateLastResponse_def)
  have 2: "regenerateLastResponse st = sendMessage ?text ?st"
    if h: "currentHistory st = turns @ [u, m]"
    using h
    by (cases turns)
      (simp_all add: regenerateLastResponse_def Let_def remove_quick_replies_def pop_def
        joined_text_def butlast_append split: list.splits)
  have 3: "(\<exists>c. fst (regenerateLastResponse st) = Some c \<and> contents c = turns @ [?turn]) \<and>
         currentHistory (snd (regenerateLastResponse st)) = turns @ [?turn]"
    if h: "currentHistory st = turns @ [u, m]" and t: "\<not> no_title (currentChatTitle st)"
  proof -
    have "\<not> no_title (currentChatTitle ?st)" using t by simp
    from sendMessage_active[OF this, of ?text] 2[OF h] show ?thesis
      by (auto simp: user_turn_def)
  qed
  have 4: "\<forall>x. u = \<lparr>role = ''user'', parts = [\<lparr>text' = x\<rparr>]\<rparr> \<longrightarrow>
              currentHistory (snd (regenerateLastResponse st)) = turns @ [u]"
    if h: "currentHistory st = turns @ [u, m]" and t: "\<not> no_title (currentChatTitle st)"
    using 3[OF h t] by auto
  from 1 2 3 4 show ?thesis by blast
qed

text \<open>
  On the page with no turns nothing happens. After \<open>go left\<close> and its answer, \<open>go left\<close>
  is submitted again. After a longer history whose last user turn has the two parts
  \<open>run\<close> and \<open>away\<close>, the one text \<open>run away\<close> is submitted and the earlier exchange stays.
\<close>

theorem regenerateLastResponse_spec_witness:
  "length (currentHistory example_page) < 2 \<and>
   regenerateLastResponse example_page = (None, example_page) \<and>
   currentHistory told_page =
     [] @ [\<lparr>role = ''user'', parts = [\<lparr>text' = ''go left''\<rparr>]\<rparr>,
           \<lparr>role = ''model'', parts = [\<lparr>text' = ''you fall''\<rparr>]\<rparr>] \<and>
   \<not> no_title (currentChatTitle told_page) \<and>
   map_option contents (fst (regenerateLastResponse told_page)) =
     Some [\<lparr>role = ''user'', parts = [\<lparr>text' = ''go left''\<rparr>]\<rparr>] \<and>
   currentHistory (snd (regenerateLastResponse told_page)) =
     [\<lparr>role = ''user'', parts = [\<lparr>text' = ''go left''\<rparr>]\<rparr>] \<and>
   chatContainer (snd (regenerateLastResponse told_page)) =
     [(5, Message ''user'' ''go left''), (6, Message ''loading'' [])] \<and>
   currentHistory retold_page =
     [\<lparr>role = ''user'', parts = [\<lparr>text' = ''go left''\<rparr>]\<rparr>,
      \<lparr>role = ''model'', parts = [\<lparr>text' = ''you fall''\<rparr>]\<rparr>]
     @ [\<lparr>role = ''user'', parts = [\<lparr>text' = ''run ''\<rparr>, \<lparr>text' = ''away''\<rparr>]\<rparr>,
        \<lparr>role = ''model'', parts = [\<lparr>text' = ''you trip''\<rparr>]\<rparr>] \<and>
   \<not> no_title (currentChatTitle retold_page) \<and>
   map_option contents (fst (regenerateLastResponse retold_page)) =
     Some [\<lparr>role = ''user'', parts = [\<lparr>text' = ''go left''\<rparr>]\<rparr>,
           \<lparr>role = ''model'', parts = [\<lparr>text' = ''you fall''\<rparr>]\<rparr>,
           \<lparr>role = ''user'', parts = [\<lparr>text' = ''run away''\<rparr>]\<rparr>] \<and>
   currentHistory (snd (regenerateLastResponse retold_page)) =
     [\<lparr>role = ''user'', parts = [\<lparr>text' = ''go left''\<rparr>]\<rparr>,
      \<lparr>role = ''model'', parts = [\<lparr>text' = ''you fall''\<rparr>]\<rparr>,
      \<lparr>role = ''user'', parts = [\<lparr>text' = ''run away''\<rparr>]\<rparr>] \<and>
   chatContainer (snd (regenerateLastResponse retold_page)) =
     [(1, Message ''user'' ''go left''), (3, Message ''model'' ''you fall''),
      (9, Message ''user'' ''run away''), (10, Message ''loading'' [])]"
proof -
  have a: "length (currentHistory example_page) < 2" by code_simp
  have b: "currentHistory told_page =
     [] @ [\<lparr>role = ''user'', parts = [\<lparr>text' = ''go left''\<rparr>]\<rparr>,
           \<lparr>role = ''model'', parts = [\<lparr>text' = ''you fall''\<rparr>]\<rparr>]"
    by code_simp
  have c: "\<not> no_title (currentChatTitle told_page)" by code_simp
  have d: "chatContainer (snd (regenerateLastResponse told_page)) =
     [(5, Message ''user'' ''go left''), (6, Message ''loading'' [])]"
    by code_simp
  have b': "currentHistory retold_page =
     [\<lparr>role = ''user'', parts = [\<lparr>text' = ''go left''\<rparr>]\<rparr>,
      \<lparr>role = ''model'', parts = [\<lparr>text' = ''you fall''\<rparr>]\<rparr>]
     @ [\<lparr>role = ''user'', parts = [\<lparr>text' = ''run ''\<rparr>, \<lparr>text' = ''away''\<rparr>]\<rparr>,
        \<lparr>role = ''model'', parts = [\<lparr>text' = ''you trip''\<rparr>]\<rparr>]"
    by code_simp
  have c': "\<not> no_title (currentChatTitle retold_page)" by code_simp
  have d': "chatContainer (snd (regenerateLastResponse retold_page)) =
     [(1, Message ''user'' ''go left''), (3, Message ''model'' ''you fall''),
      (9, Message ''user'' ''run away''), (10, Message ''loading'' [])]"
    by code_simp
  from regenerateLastResponse_spec[of example_page] a
  have e: "regenerateLastResponse example_page = (None, example_page)"
    by blast
  from regenerateLastResponse_spec[of told_page "[]"
      "\<lparr>role = ''user'', parts = [\<lparr>text' = ''go left''\<rparr>]\<rparr>"
      "\<lparr>role = ''model'', parts = [\<lparr>text' = ''you fall''\<rparr>]\<rparr>"] b c
  have f: "map_option contents (fst (regenerateLastResponse told_page)) =
       Some [\<lparr>role = ''user'', parts = [\<lparr>text' = ''go left''\<rparr>]\<rparr>] \<and>
     currentHistory (snd (regenerateLastResponse told_page)) =
       [\<lparr>role = ''user'', parts = [\<lparr>text' = ''go left''\<rparr>]\<rparr>]"
    by auto
  from regenerateLastResponse_spec[of retold_page
      "[\<lparr>role = ''user'', parts = [\<lparr>text' = ''go left''\<rparr>]\<rparr>,
        \<lparr>role = ''model'', parts = [\<lparr>text' = ''you fall''\<rparr>]\<rparr>]"
      "\<lparr>role = ''user'', parts = [\<lparr>text' = ''run ''\<rparr>, \<lparr>text' = ''away''\<rparr>]\<rparr>"
      "\<lparr>role = ''model'', parts = [\<lparr>text' = ''you trip''\<rparr>]\<rparr>"] b' c'
  have f': "map_option contents (fst (regenerateLastResponse retold_page)) =
       Some [\<lparr>role = ''user'', parts = [\<lparr>text' = ''go left''\<rparr>]\<rparr>,
             \<lparr>role = ''model'', parts = [\<lparr>text' = ''you fall''\<rparr>]\<rparr>,
             \<lparr>role = ''user'', parts = [\<lparr>text' = ''run away''\<rparr>]\<rparr>] \<and>
     currentHistory (snd (regenerateLastResponse retold_page)) =
       [\<lparr>role = ''user'', parts = [\<lparr>text' = ''go left''\<rparr>]\<rparr>,
        \<lparr>role = ''model'', parts = [\<lparr>text' = ''you fall''\<rparr>]\<rparr>,
        \<lparr>role = ''user'', parts = [\<lparr>text' = ''run away''\<rparr>]\<rparr>]"
    by auto
  from a e b c f d b' c' f' d' show ?thesis by blast
qed

subsection \<open>SaveScheduler\<close>

lemma requestSaves_snoc:
  "requestSaves (fs @ [f]) st = scheduleSave (f (requestSaves fs st))"
  by (induction fs arbitrary: st) simp_all

lemma keeps_pending_ok:
  "keeps_save_timers f \<Longrightarrow> pending_ok st \<Longrightarrow> pending_ok (f st)"
  by (simp add: keeps_save_timers_def pending_ok_def)

lemma requestSaves_pending_ok:
  "\<forall>f \<in> set fs. keeps_save_timers f \<Longrightarrow> pending_ok st \<Longrightarrow> pending_ok (requestSaves fs st)"
  by (induction fs arbitrary: st) (simp_all add: keeps_pending_ok scheduleSave_single(3))

lemma keeps_push: "keeps_save_timers (push turn)"
  by (simp add: keeps_save_timers_def)

lemma keeps_id: "keeps_save_timers id"
  by (simp add: keeps_save_timers_def)

text \<open>
  Against C5 as stated: \<open>go left\<close> is submitted in \<open>A\<close> (one call of \<open>scheduleSave\<close>, at
  which the state is \<open>A\<close> with the user turn), the user opens \<open>B\<close>, and the timer expires.
  The one write goes to \<open>B\<close> with the state of that moment; the state at the time of the
  call is never written, and no timer is left that could write it.
\<close>

theorem write_holds_state_at_expiry:
  "map_option timers (map_option snd asked) = Some [1] \<and>
   map_option currentChatTitle (map_option snd asked) = Some (Some ''A'') \<and>
   map_option currentHistory (map_option snd asked) = Some [user_turn ''go left''] \<and>
   map_option timers (map_option snd switched) = Some [1] \<and>
   map_option timers expired_after_switch = Some [] \<and>
   map_option (stored ''A'') expired_after_switch =
     Some (Inr \<lparr>history = JArr [], systemInstruction = JStr DEFAULT_SYSTEM_INSTRUCTION\<rparr>) \<and>
   map_option (stored ''B'') expired_after_switch =
     Some (Inr \<lparr>history = JArr [], systemInstruction = JStr ''Be brief.''\<rparr>)"
  by code_simp

text \<open>
  C5, amended. After one or more calls of \<open>scheduleSave\<close> with no timer expiring in
  between, exactly one save timer is set (every earlier one was cleared and never runs).
  When it expires, after whatever else the page has done (\<open>g\<close>), no timer is left, and one
  write occurs that holds the title, the history and the instruction of that moment, not
  of the last call; if no conversation is open at that moment, nothing is written.
\<close>

theorem scheduleSave_debounce:
  assumes "pending_ok st" and "fs \<noteq> []" and "\<forall>f \<in> set fs. keeps_save_timers f"
  shows "\<exists>i. timers (requestSaves fs st) = [i] \<and>
           (\<forall>g. keeps_save_timers g \<longrightarrow>
              timers (timeout i (g (requestSaves fs st))) = [] \<and>
              localStorage (timeout i (g (requestSaves fs st))) =
                (case currentChatTitle (g (requestSaves fs st)) of
                   None \<Rightarrow> localStorage (g (requestSaves fs st))
                 | Some title \<Rightarrow>
                     if title = [] then localStorage (g (requestSaves fs st))
                     else saveChatData title (currentHistory (g (requestSaves fs st)))
                            (currentSystemInstruction (g (requestSaves fs st)))
                            (localStorage (g (requestSaves fs st)))) \<and>
              (\<forall>j. j \<noteq> i \<longrightarrow> timeout j (g (requestSaves fs st)) = g (requestSaves fs st)))"
proof -
  from assms(2) obtain gs f where fs: "fs = gs @ [f]" by (metis rev_exhaust)
  let ?st0 = "f (requestSaves gs st)"
  have "pending_ok (requestSaves gs st)"
    using assms(1,3) fs by (simp add: requestSaves_pending_ok)
  moreover have "keeps_save_timers f" using assms(3) fs by simp
  ultimately have "pending_ok ?st0" by (simp add: keeps_pending_ok)
  then have tm: "timers (requestSaves fs st) = [nextTimer ?st0]"
    by (simp add: fs requestSaves_snoc scheduleSave_single(1))
  have "timers (timeout (nextTimer ?st0) (g (requestSaves fs st))) = [] \<and>
        localStorage (timeout (nextTimer ?st0) (g (requestSaves fs st))) =
                (case currentChatTitle (g (requestSaves fs st)) of
                   None \<Rightarrow> localStorage (g (requestSaves fs st))
                 | Some title \<Rightarrow>
                     if title = [] then localStorage (g (requestSaves fs st))
                     else saveChatData title (currentHistory (g (requestSaves fs st)))
                            (currentSystemInstruction (g (requestSaves fs st)))
                            (localStorage (g (requestSaves fs st)))) \<and>
        (\<forall>j. j \<noteq> nextTimer ?st0 \<longrightarrow> timeout j (g (requestSaves fs st)) = g (requestSaves fs st))"
    if g: "keeps_save_timers g" for g
  proof -
    have t: "timers (g (requestSaves fs st)) = [nextTimer ?st0]"
      using g tm by (simp add: keeps_save_timers_def)
    show ?thesis using timeout_set[OF t] t by (simp add: timeout_cleared)
  qed
  with tm show ?thesis by blast
qed

text \<open>
  Two calls in conversation \<open>A\<close>, then the timer of the second one expires; and a call made
  by a response that arrives when no conversation is open, whose timer writes nothing.
\<close>

theorem scheduleSave_debounce_witness:
  "pending_ok told_page \<and> [push (user_turn ''run''), push (model_turn ''you trip'')] \<noteq> [] \<and>
   keeps_save_timers (push (user_turn ''run'')) \<and> keeps_save_timers (push (model_turn ''you trip'')) \<and>
   keeps_save_timers id \<and>
   timers (requestSaves [push (user_turn ''run''), push (model_turn ''you trip'')] told_page) = [2] \<and>
   timers (timeout 2 (requestSaves [push (user_turn ''run''), push (model_turn ''you trip'')] told_page)) = [] \<and>
   stored ''A'' (timeout 2 (requestSaves [push (user_turn ''run''), push (model_turn ''you trip'')] told_page)) =
     Inr \<lparr>history = Contents_json [user_turn ''go left'', model_turn ''you fall'',
                                     user_turn ''run'', model_turn ''you trip''],
          systemInstruction = JStr DEFAULT_SYSTEM_INSTRUCTION\<rparr> \<and>
   pending_ok example_page \<and>
   currentChatTitle (requestSaves [push (model_turn ''too late'')] example_page) = None \<and>
   timers (requestSaves [push (model_turn ''too late'')] example_page) = [1] \<and>
   localStorage (timeout 1 (requestSaves [push (model_turn ''too late'')] example_page)) =
     localStorage example_page"
proof -
  let ?fs = "[push (user_turn ''run''), push (model_turn ''you trip'')]"
  let ?gs = "[push (model_turn ''too late'')]"
  have ok': "pending_ok example_page" by code_simp
  have ne': "?gs \<noteq> []" by simp
  have ks': "\<forall>f \<in> set ?gs. keeps_save_timers f" by (simp add: keeps_push)
  have ev': "currentChatTitle (requestSaves ?gs example_page) = None \<and>
             timers (requestSaves ?gs example_page) = [1]"
    by code_simp
  have nw: "localStorage (timeout 1 (requestSaves ?gs example_page)) = localStorage example_page"
    by (simp add: example_page_def scheduleSave_def clearTimeout_def timeout_def
        save_callback_def push_def Let_def)
  have ok: "pending_ok told_page" by code_simp
  have ne: "?fs \<noteq> []" by simp
  have ks: "\<forall>f \<in> set ?fs. keeps_save_timers f" by (simp add: keeps_push)
  have ev: "timers (requestSaves ?fs told_page) = [2] \<and>
   timers (timeout 2 (requestSaves ?fs told_page)) = [] \<and>
   stored ''A'' (timeout 2 (requestSaves ?fs told_page)) =
     Inr \<lparr>history = Contents_json [user_turn ''go left'', model_turn ''you fall'',
                                     user_turn ''run'', model_turn ''you trip''],
          systemInstruction = JStr DEFAULT_SYSTEM_INSTRUCTION\<rparr>"
    by code_simp
  from scheduleSave_debounce[OF ok ne ks] scheduleSave_debounce[OF ok' ne' ks']
    ok ne ev keeps_push keeps_id ok' ev' nw
  show ?thesis by blast
qed

subsection \<open>A response that arrives after the conversation was switched\<close>

text \<open>
  Against C2 as stated: \<open>go left\<close> is submitted in \<open>A\<close>, the user opens \<open>B\<close> (stored with no
  turns), and then the backend answers. The model turn is appended to the history of
  \<open>B\<close>, and the save that follows stores it under \<open>B\<close>.
\<close>

theorem response_applied_after_switch:
  "stored ''A'' example_page = Inr \<lparr>history = JArr [], systemInstruction = JStr DEFAULT_SYSTEM_INSTRUCTION\<rparr> \<and>
   stored ''B'' example_page = Inr \<lparr>history = JArr [], systemInstruction = JStr ''Be brief.''\<rparr> \<and>
   map_option contents (Option.bind asked fst) = Some [user_turn ''go left''] \<and>
   map_option currentChatTitle answered_after_switch = Some (Some ''B'') \<and>
   map_option currentHistory answered_after_switch = Some [model_turn ''you fall''] \<and>
   map_option timers answered_after_switch = Some [2] \<and>
   map_option (stored ''B'') (map_option (timeout 2) answered_after_switch) =
     Some (Inr \<lparr>history = Contents_json [model_turn ''you fall''],
                systemInstruction = JStr ''Be brief.''\<rparr>)"
  by code_simp

text \<open>
  C2, amended. \<open>sendMessage\<close> keeps no title with the call and compares none when the
  response arrives. A response that arrives after the user switched from \<open>A\<close> to \<open>B\<close> is
  applied to \<open>B\<close>: its model turn is appended to the in-memory history of \<open>B\<close>, and the
  debounced save that follows stores that history under \<open>B\<close>. The record stored for \<open>A\<close>
  is changed neither by the response nor by that save.
\<close>

theorem response_after_switch:
  assumes A: "currentChatTitle stA = Some A" "A \<noteq> []" and ok: "pending_ok stA"
    and send: "sendMessage userMessage stA = (Some c, st1)"
    and switch: "loadChat B st1 = Some stB" "B \<noteq> []" "A \<noteq> B"
    and response: "response_text response = Some t" "JSON_parse t = Inr (JObj kvs)"
      "map_of kvs ''story_part'' = Some (JStr story)" "story \<noteq> []"
      "map_of kvs ''suggestions'' = Some (JArr vs)" "as_list as_string vs = Some replies"
  shows "\<exists>st' i. sendMessage_resume c (Inr response) stB = Some st' \<and>
           currentChatTitle st' = Some B \<and>
           currentHistory st' = currentHistory stB @ [model_turn story] \<and>
           timers st' = [i] \<and>
           HISTORY (localStorage (timeout i st')) B =
             Some (JSON_stringify
               (JObj [(''history'', Contents_json (currentHistory stB @ [model_turn story])),
                      (''systemInstruction'', JStr (currentSystemInstruction stB))])) \<and>
           HISTORY (localStorage (timeout i st')) A = HISTORY (localStorage stA) A"
proof -
  let ?st0 = "push (model_turn story)
                (snd (appendMessage story ''model'' replies (remove_node (loadingIndicator c) stB)))"
  let ?st' = "scheduleSave ?st0"
  have r: "sendMessage_resume c (Inr response) stB = Some ?st'"
    by (rule sendMessage_resume_structured[OF response])
  have "pending_ok st1" by (rule sendMessage_timers[OF send ok])
  then have "pending_ok stB"
    using loadChat_Some(3,4)[OF switch(1)] pending_ok_cong by metis
  then have "pending_ok ?st0" by (simp add: pending_ok_def)
  then have tm: "timers ?st' = [nextTimer ?st0]" by (rule scheduleSave_single(1))
  have title: "currentChatTitle ?st' = Some B" using loadChat_Some(1)[OF switch(1)] by simp
  have hist: "currentHistory ?st' = currentHistory stB @ [model_turn story]" by simp
  have "\<not> no_title (currentChatTitle stA)" using A by (simp add: no_title_def)
  from sendMessage_active[OF this, of userMessage] send
  have "localStorage st1 = localStorage stA" by auto
  then have ls: "HISTORY (localStorage ?st') = HISTORY (localStorage stA)"
    using loadChat_Some(2)[OF switch(1)] by simp
  have saved: "localStorage (timeout (nextTimer ?st0) ?st') =
      saveChatData B (currentHistory stB @ [model_turn story]) (currentSystemInstruction stB)
        (localStorage ?st')"
    using timeout_set(2)[OF tm] title switch(2) by simp
  have "HISTORY (localStorage (timeout (nextTimer ?st0) ?st')) B =
             Some (JSON_stringify
               (JObj [(''history'', Contents_json (currentHistory stB @ [model_turn story])),
                      (''systemInstruction'', JStr (currentSystemInstruction stB))]))"
    by (subst saved) (simp add: saveChatData_def)
  moreover have "HISTORY (localStorage (timeout (nextTimer ?st0) ?st')) A = HISTORY (localStorage stA) A"
    using switch(3) ls by (subst saved) (simp add: saveChatData_def)
  ultimately show ?thesis using r title hist tm by blast
qed
theorem response_after_switch_witness:
  "currentChatTitle told_page = Some ''A'' \<and> pending_ok told_page \<and>
   fst (sendMessage ''run'' told_page) \<noteq> None \<and>
   (\<exists>st' i. Option.bind (meanwhile (loadChat ''B'') (sendMessage ''run'' told_page))
               (settle (Inr story_reply)) = Some st' \<and>
            currentChatTitle st' = Some ''B'' \<and>
            currentHistory st' = [model_turn ''you fall''] \<and>
            timers st' = [i] \<and>
            stored ''B'' (timeout i st') =
              Inr \<lparr>history = Contents_json [model_turn ''you fall''],
                   systemInstruction = JStr ''Be brief.''\<rparr> \<and>
            HISTORY (localStorage (timeout i st')) ''A'' = HISTORY example_store ''A'')"
proof -
  have A: "currentChatTitle told_page = Some ''A''" "''A'' \<noteq> []" by code_simp+
  have ok: "pending_ok told_page" by code_simp
  have "\<not> no_title (currentChatTitle told_page)" by code_simp
  from sendMessage_active[OF this, of "''run''"] obtain c st1
    where send: "sendMessage ''run'' told_page = (Some c, st1)" by blast
  have "\<not> Option.is_none (loadChat ''B'' (snd (sendMessage ''run'' told_page)))" by code_simp
  then obtain stB where switch: "loadChat ''B'' st1 = Some stB"
    using send by (auto simp: Option.is_none_def)
  have B: "''B'' \<noteq> []" "''A'' \<noteq> ''B''" by simp_all
  let ?kvs = "[(''story_part'', JStr ''you fall''),
               (''suggestions'', JArr [JStr ''Get up'', JStr ''Call out'', JStr ''Rest''])]"
  have r: "response_text story_reply = Some (JSON_stringify (JObj ?kvs))"
      "JSON_parse (JSON_stringify (JObj ?kvs)) = Inr (JObj ?kvs)"
      "map_of ?kvs ''story_part'' = Some (JStr ''you fall'')" "''you fall'' \<noteq> []"
      "map_of ?kvs ''suggestions'' = Some (JArr [JStr ''Get up'', JStr ''Call out'', JStr ''Rest''])"
      "as_list as_string [JStr ''Get up'', JStr ''Call out'', JStr ''Rest'']
         = Some [''Get up'', ''Call out'', ''Rest'']"
    by (simp_all add: story_reply_def JSON_parse_def JSON_stringify_def)
  from response_after_switch[OF A ok send switch B r] obtain st' i
    where res: "sendMessage_resume c (Inr story_reply) stB = Some st'"
      "currentChatTitle st' = Some ''B''"
      "currentHistory st' = currentHistory stB @ [model_turn ''you fall'']"
      "timers st' = [i]"
      "HISTORY (localStorage (timeout i st')) ''B'' =
             Some (JSON_stringify
               (JObj [(''history'', Contents_json (currentHistory stB @ [model_turn ''you fall''])),
                      (''systemInstruction'', JStr (currentSystemInstruction stB))]))"
      "HISTORY (localStorage (timeout i st')) ''A'' = HISTORY (localStorage told_page) ''A''"
    by blast
  have "map_option currentHistory (loadChat ''B'' (snd (sendMessage ''run'' told_page))) = Some [] \<and>
        map_option currentSystemInstruction (loadChat ''B'' (snd (sendMessage ''run'' told_page)))
          = Some ''Be brief.''"
    by code_simp
  then have hB: "currentHistory stB = []" "currentSystemInstruction stB = ''Be brief.''"
    using send switch by simp_all
  have run: "Option.bind (meanwhile (loadChat ''B'') (sendMessage ''run'' told_page))
               (settle (Inr story_reply)) = Some st'"
    using send switch res(1) by (simp add: meanwhile_def settle_def)
  have sB: "stored ''B'' (timeout i st') =
              Inr \<lparr>history = Contents_json [model_turn ''you fall''],
                   systemInstruction = JStr ''Be brief.''\<rparr>"
    using res(5) hB
    by (simp add: stored_def getChatData_def getChatData_try_def JSON_parse_def
        JSON_stringify_def js_or_def Contents_json_def)
  have sA: "HISTORY (localStorage (timeout i st')) ''A'' = HISTORY example_store ''A''"
    using res(6) by (simp add: told_page_def example_page_def)
  have f: "fst (sendMessage ''run'' told_page) \<noteq> None" using send by simp
  from A(1) ok f run res(2) res(3) hB(1) res(4) sB sA show ?thesis by auto
qed

end
